theory Spec2Isabelle
  imports Main
begin

section \<open>JavaScript values used by the page\<close>

text \<open>
  The page \<^verbatim>\<open>src/app/page.jsx\<close> keeps four pieces of React state: the three text inputs
  \<^verbatim>\<open>code\<close>, \<^verbatim>\<open>name\<close>, \<^verbatim>\<open>price\<close> (always strings: they start as \<^verbatim>\<open>''\<close> and are only ever
  set from \<^verbatim>\<open>e.target.value\<close> or back to \<^verbatim>\<open>''\<close>) and the array \<^verbatim>\<open>cart\<close>.

  Strings: a string of the page is modelled by the list of the bytes of its UTF-8 encoding
  (\<open>string\<close>). The page compares strings with \<^verbatim>\<open>===\<close> and tests them for emptiness, which the
  encoding preserves; \<^verbatim>\<open>parseInt\<close> is the one place that reads characters, and there the
  characters beyond ASCII that matter (white space) are recognised by their byte sequences.
\<close>

subsection \<open>Numbers\<close>

text \<open>
  A number of the page is an IEEE 754 binary64 value. The only numbers the page computes
  with are prices (results of \<^verbatim>\<open>parseInt\<close>), quantities and the sums and products of these,
  so every finite one is an integer: a value \<open>Num n\<close>, besides \<^verbatim>\<open>NaN\<close> and the two infinities.
  (\<^verbatim>\<open>-0\<close> is \<open>Num 0\<close>: the page never tells it from \<^verbatim>\<open>0\<close>, \<^verbatim>\<open>-0 === 0\<close> holds, it is rendered as
  \<^verbatim>\<open>0\<close> in a list entry, and \<^verbatim>\<open>total\<close> starts from \<^verbatim>\<open>+0\<close> and so is never \<^verbatim>\<open>-0\<close>.)

  Not every integer is a binary64 value: the result of an operation is the exact result
  rounded to the nearest value with a 53-bit significand, ties to the even significand,
  and to an infinity from \<open>2^1024 - 2^970\<close> on. \<open>ulp m\<close> is the distance between
  neighbouring binary64 values at the magnitude \<open>m\<close>: 1 below \<open>2^53\<close>, doubling with every
  further binary digit.
\<close>

datatype jsnum = NaN | Num int | Infinity | MinusInfinity

function ulp :: "int \<Rightarrow> int" where
  "ulp m = (if m < 2 ^ 53 then 1 else 2 * ulp (m div 2))"
  by pat_completeness auto
termination
  by (relation "measure nat") auto

declare ulp.simps [simp del]

definition round64 :: "int \<Rightarrow> jsnum" where
  "round64 n =
     (let m = \<bar>n\<bar>; u = ulp m; q = m div u; r = m mod u;
          k = (if 2 * r < u \<or> (2 * r = u \<and> even q) then q else q + 1) * u
      in if 2 ^ 1024 \<le> k then (if n < 0 then MinusInfinity else Infinity)
         else Num (if n < 0 then - k else k))"

text \<open>\<^verbatim>\<open>a + b\<close>: the rounded sum; \<^verbatim>\<open>NaN\<close> absorbs, and so does the sum of opposite infinities.\<close>

fun js_add :: "jsnum \<Rightarrow> jsnum \<Rightarrow> jsnum" where
  "js_add (Num a) (Num b) = round64 (a + b)"
| "js_add NaN _ = NaN"
| "js_add _ NaN = NaN"
| "js_add Infinity MinusInfinity = NaN"
| "js_add MinusInfinity Infinity = NaN"
| "js_add Infinity _ = Infinity"
| "js_add _ Infinity = Infinity"
| "js_add MinusInfinity _ = MinusInfinity"
| "js_add _ MinusInfinity = MinusInfinity"

text \<open>\<^verbatim>\<open>a * b\<close>: the rounded product; zero times an infinity is \<^verbatim>\<open>NaN\<close>.\<close>

fun js_mul :: "jsnum \<Rightarrow> jsnum \<Rightarrow> jsnum" where
  "js_mul (Num a) (Num b) = round64 (a * b)"
| "js_mul NaN _ = NaN"
| "js_mul _ NaN = NaN"
| "js_mul Infinity (Num b) =
     (if b = 0 then NaN else if b < 0 then MinusInfinity else Infinity)"
| "js_mul MinusInfinity (Num b) =
     (if b = 0 then NaN else if b < 0 then Infinity else MinusInfinity)"
| "js_mul (Num a) Infinity =
     (if a = 0 then NaN else if a < 0 then MinusInfinity else Infinity)"
| "js_mul (Num a) MinusInfinity =
     (if a = 0 then NaN else if a < 0 then Infinity else MinusInfinity)"
| "js_mul Infinity Infinity = Infinity"
| "js_mul MinusInfinity MinusInfinity = Infinity"
| "js_mul Infinity MinusInfinity = MinusInfinity"
| "js_mul MinusInfinity Infinity = MinusInfinity"

text \<open>\<^verbatim>\<open>!s\<close> on a string \<^verbatim>\<open>s\<close>: true exactly for the empty string.\<close>

definition js_not :: "string \<Rightarrow> bool" where
  "js_not s = (s = [])"

subsection \<open>\<^verbatim>\<open>parseInt(s, 10)\<close>\<close>

text \<open>
  ECMAScript \<^verbatim>\<open>parseInt\<close> with radix 10: leading white space is skipped, one optional sign
  is read, then the longest run of decimal digits; whatever follows is ignored. With no
  digit at that point the result is \<^verbatim>\<open>NaN\<close>, otherwise the number nearest to the signed
  integer the digits denote, an infinity when there is none. (Radix 10 never strips a
  \<^verbatim>\<open>0x\<close> prefix. Past twenty significant digits the language lets an implementation read the
  further digits as zeros; the model rounds the exact integer.)

  White space is what the language calls \<^verbatim>\<open>WhiteSpace\<close> and \<^verbatim>\<open>LineTerminator\<close>: U+0009 to
  U+000D and U+0020 (one byte each), U+00A0 (bytes C2 A0), and with three bytes U+1680
  (E1 9A 80), U+2000 to U+200A (E2 80 80 to E2 80 8A), U+2028, U+2029 and U+202F (E2 80
  A8, A9, AF), U+205F (E2 81 9F), U+3000 (E3 80 80) and U+FEFF (EF BB BF). The single byte
  A0 is skipped as well: no UTF-8 text has it where a character starts, and it is U+00A0 for
  a reader who takes the bytes for Latin-1 characters.
\<close>

definition isWhiteSpace1 :: "char \<Rightarrow> bool" where
  "isWhiteSpace1 a = ((of_char a :: nat) \<in> {9, 10, 11, 12, 13, 32, 160})"

definition isWhiteSpace2 :: "char \<Rightarrow> char \<Rightarrow> bool" where
  "isWhiteSpace2 a b = ((of_char a :: nat) = 194 \<and> (of_char b :: nat) = 160)"

definition isWhiteSpace3 :: "char \<Rightarrow> char \<Rightarrow> char \<Rightarrow> bool" where
  "isWhiteSpace3 a b c =
     (let x = (of_char a :: nat); y = (of_char b :: nat); z = (of_char c :: nat)
      in (x = 225 \<and> y = 154 \<and> z = 128) \<or>
         (x = 226 \<and> y = 128 \<and> (128 \<le> z \<and> z \<le> 138 \<or> z = 168 \<or> z = 169 \<or> z = 175)) \<or>
         (x = 226 \<and> y = 129 \<and> z = 159) \<or>
         (x = 227 \<and> y = 128 \<and> z = 128) \<or>
         (x = 239 \<and> y = 187 \<and> z = 191))"

fun skipWhiteSpace :: "string \<Rightarrow> string" where
  "skipWhiteSpace (a # b # c # s) =
     (if isWhiteSpace1 a then skipWhiteSpace (b # c # s)
      else if isWhiteSpace2 a b then skipWhiteSpace (c # s)
      else if isWhiteSpace3 a b c then skipWhiteSpace s
      else a # b # c # s)"
| "skipWhiteSpace [a, b] =
     (if isWhiteSpace1 a then skipWhiteSpace [b]
      else if isWhiteSpace2 a b then [] else [a, b])"
| "skipWhiteSpace [a] = (if isWhiteSpace1 a then [] else [a])"
| "skipWhiteSpace [] = []"

definition isDigit :: "char \<Rightarrow> bool" where
  "isDigit c = (48 \<le> (of_char c :: nat) \<and> (of_char c :: nat) \<le> 57)"

definition digitVal :: "char \<Rightarrow> int" where
  "digitVal c = int (of_char c) - 48"

definition digitsVal :: "string \<Rightarrow> int" where
  "digitsVal ds = foldl (\<lambda>acc c. 10 * acc + digitVal c) 0 ds"

definition parseInt10 :: "string \<Rightarrow> jsnum" where
  "parseInt10 s =
     (let t = skipWhiteSpace s;
          sign = (case t of c # _ \<Rightarrow> if c = CHR ''-'' then - 1 else 1 | [] \<Rightarrow> 1);
          r = (case t of c # r' \<Rightarrow> if c = CHR ''-'' \<or> c = CHR ''+'' then r' else t | [] \<Rightarrow> []);
          ds = takeWhile isDigit r
      in if ds = [] then NaN else round64 (sign * digitsVal ds))"

section \<open>The cart\<close>

text \<open>
  A cart entry is the object literal \<^verbatim>\<open>{ code, name, price: parseInt(price, 10), qty: 1 }\<close>
  of \<^verbatim>\<open>handleAdd\<close>; the callbacks call it \<^verbatim>\<open>item\<close>. Its \<^verbatim>\<open>qty\<close> starts at 1 and grows by one
  per click, so it is a plain integer (it would take \<open>2^53\<close> clicks on one line for
  \<^verbatim>\<open>qty += 1\<close> to round).
\<close>

record item =
  item_code :: string
  item_name :: string
  item_price :: jsnum
  item_qty :: int

record pos_state =
  code :: string
  name :: string
  price :: string
  cart :: "item list"

text \<open>The state of the first render: \<^verbatim>\<open>useState('')\<close> three times and \<^verbatim>\<open>useState([])\<close>.\<close>

definition initial_state :: pos_state where
  "initial_state = \<lparr>code = [], name = [], price = [], cart = []\<rparr>"

subsection \<open>\<^verbatim>\<open>total\<close>\<close>

text \<open>
  \<^verbatim>\<open>const total = cart.reduce((sum, item) => sum + item.price * item.qty, 0);\<close>
  is evaluated in the body of the component, that is on every render, from the \<^verbatim>\<open>cart\<close> of
  that render. It is a function of the cart and of nothing else; the state has no field
  that stores it. (\<open>total\<close> is a constant of HOL already, hence the suffix.)
\<close>

definition total_of :: "item list \<Rightarrow> jsnum" where
  "total_of c = foldl (\<lambda>sum item. js_add sum (js_mul (item_price item) (Num (item_qty item)))) (Num 0) c"

subsection \<open>\<^verbatim>\<open>handleAdd\<close>\<close>

text \<open>
  \<^verbatim>\<open>cart.find(p)\<close> returns (a reference to) the first element that satisfies \<^verbatim>\<open>p\<close>, or
  \<^verbatim>\<open>undefined\<close>. The reference is modelled by the position of that element.
\<close>

primrec find_ref :: "('a \<Rightarrow> bool) \<Rightarrow> 'a list \<Rightarrow> nat option" where
  "find_ref p [] = None"
| "find_ref p (x # xs) = (if p x then Some 0 else map_option Suc (find_ref p xs))"

text \<open>\<^verbatim>\<open>existing.qty += 1\<close> on a cart entry.\<close>

definition incr_qty :: "item \<Rightarrow> item" where
  "incr_qty l = l\<lparr>item_qty := item_qty l + 1\<rparr>"

text \<open>
  \<^verbatim>\<open>
  const handleAdd = () => {
    if (!name || !price) return;
    const existing = cart.find((item) => item.code === code);
    if (existing) {
      existing.qty += 1;
      setCart([...cart]);
    } else {
      setCart([...cart, { code, name, price: parseInt(price, 10), qty: 1 }]);
    }
    setCode(''); setName(''); setPrice('');
  };
  \<close>
  An object is always truthy, so \<^verbatim>\<open>if (existing)\<close> asks whether \<^verbatim>\<open>find\<close> found an element.
  \<^verbatim>\<open>existing.qty += 1\<close> writes through the reference, so the copy \<^verbatim>\<open>[...cart]\<close> holds the same
  entries in the same places, the found one with its \<^verbatim>\<open>qty\<close> raised.
\<close>

definition handleAdd :: "pos_state \<Rightarrow> pos_state" where
  "handleAdd s =
     (if js_not (name s) \<or> js_not (price s) then s
      else
        (case find_ref (\<lambda>item. item_code item = code s) (cart s) of
           Some existing \<Rightarrow>
             s\<lparr>cart := (cart s)[existing := incr_qty (cart s ! existing)],
               code := [], name := [], price := []\<rparr>
         | None \<Rightarrow>
             s\<lparr>cart := cart s @
                    [\<lparr>item_code = code s, item_name = name s,
                      item_price = parseInt10 (price s), item_qty = 1\<rparr>],
               code := [], name := [], price := []\<rparr>))"

text \<open>
  One add-to-cart call of the operator: the three inputs are filled (\<^verbatim>\<open>setCode\<close>,
  \<^verbatim>\<open>setName\<close>, \<^verbatim>\<open>setPrice\<close> from the \<^verbatim>\<open>onChange\<close> handlers) and the add button is clicked.
\<close>

record add_call =
  call_code :: string
  call_name :: string
  call_price :: string

definition addLine :: "pos_state \<Rightarrow> add_call \<Rightarrow> pos_state" where
  "addLine s a = handleAdd (s\<lparr>code := call_code a, name := call_name a, price := call_price a\<rparr>)"

definition addLines :: "pos_state \<Rightarrow> add_call list \<Rightarrow> pos_state" where
  "addLines s calls = foldl addLine s calls"

text \<open>A call passes the guard of \<^verbatim>\<open>handleAdd\<close> when neither its name nor its price is empty.\<close>

definition passes_guard :: "add_call \<Rightarrow> bool" where
  "passes_guard a = (call_name a \<noteq> [] \<and> call_price a \<noteq> [])"

subsection \<open>The subtotal as the specification words it\<close>

text \<open>
  The sum over all lines of price times qty, as a sum of integers. It is meant for carts
  whose prices all are integers (\<open>int_priced\<close>); in \<open>int_price\<close> the 0 for a price that is
  \<^verbatim>\<open>NaN\<close> or infinite only makes the function total. \<open>spec_magnitude\<close> adds up the absolute
  values of the same products: while it is at most \<open>2^53\<close>, every product and every partial
  sum is an integer that binary64 holds exactly.
\<close>

definition int_priced :: "item list \<Rightarrow> bool" where
  "int_priced c = list_all (\<lambda>l. case item_price l of Num p \<Rightarrow> True | _ \<Rightarrow> False) c"

definition int_price :: "item \<Rightarrow> int" where
  "int_price l = (case item_price l of Num p \<Rightarrow> p | _ \<Rightarrow> 0)"

definition spec_subtotal :: "item list \<Rightarrow> int" where
  "spec_subtotal c = (\<Sum>l\<leftarrow>c. int_price l * item_qty l)"

definition spec_magnitude :: "item list \<Rightarrow> int" where
  "spec_magnitude c = (\<Sum>l\<leftarrow>c. \<bar>int_price l * item_qty l\<bar>)"

text \<open>
  The order in which the elements of a list appear for the first time: \<open>remdups\<close> keeps
  the last copy of each element, so it is applied to the reversed list.
\<close>

definition first_occurrences :: "'a list \<Rightarrow> 'a list" where
  "first_occurrences xs = rev (remdups (rev xs))"

text \<open>
  Modelled from the spec: the cart's \<^verbatim>\<open>clear\<close> operation, which the page does not have (no
  handler ever calls \<^verbatim>\<open>setCart([])\<close>, and the purchase button has no \<^verbatim>\<open>onClick\<close>). The
  specification says of it: "removes all lines; used after a confirmed purchase".
\<close>

definition clear :: "pos_state \<Rightarrow> pos_state" where
  "clear s = s\<lparr>cart := []\<rparr>"

section \<open>The API client\<close>

text \<open>
  Both functions await \<^verbatim>\<open>fetch\<close> and look at the response. What the network answers is an
  input of the model: either no response at all (\<^verbatim>\<open>fetch\<close>, or \<^verbatim>\<open>new URL\<close> before it, throws
  a \<^verbatim>\<open>TypeError\<close>), or a response with its status and its body; the body is the JSON value
  that \<^verbatim>\<open>res.json()\<close> parses, or \<open>None\<close> when it is not JSON and \<^verbatim>\<open>res.json()\<close> rejects with
  a \<^verbatim>\<open>SyntaxError\<close>.
\<close>

datatype json =
  JNull | JBool bool | JNum int | JStr string | JArr "json list" | JObj "(string \<times> json) list"

datatype fetch_outcome = Rejected | Response nat "json option"

text \<open>
  The two messages are template literals that interpolate \<^verbatim>\<open>res.status\<close>; the model keeps
  which of the two it is and the status inside it.
\<close>

datatype message = LookupFailed nat | PurchaseFailed nat

datatype js_error = TypeError | SyntaxError | Error message

text \<open>\<^verbatim>\<open>res.ok\<close>: the status is in the range 200 to 299.\<close>

definition ok :: "nat \<Rightarrow> bool" where
  "ok status = (200 \<le> status \<and> status \<le> 299)"

text \<open>
  \<^verbatim>\<open>
  async function fetchProductByCode(code) {
    const url = new URL("/product", API_BASE);
    url.searchParams.set("code", code);
    const res = await fetch(url.toString(), { cache: "no-store" });
    if (!res.ok) throw new Error(`... (${res.status})`);
    const data = await res.json();
    return data;
  }
  \<close>
\<close>

fun fetchProductByCode :: "string \<Rightarrow> fetch_outcome \<Rightarrow> js_error + json" where
  "fetchProductByCode c Rejected = Inl TypeError"
| "fetchProductByCode c (Response status body) =
     (if ok status then
        (case body of None \<Rightarrow> Inl SyntaxError | Some data \<Rightarrow> Inr data)
      else Inl (Error (LookupFailed status)))"

text \<open>
  \<^verbatim>\<open>
  async function postPurchase(payload) {
    const res = await fetch(`${API_BASE}/purchase`, { method: "POST", headers: ...,
      body: JSON.stringify(payload) });
    if (!res.ok) throw new Error(`... (${res.status})`);
    return res.json();
  }
  \<close>
  The payload is serialised and sent; the result depends on the response alone.
\<close>

fun postPurchase :: "json \<Rightarrow> fetch_outcome \<Rightarrow> js_error + json" where
  "postPurchase payload Rejected = Inl TypeError"
| "postPurchase payload (Response status body) =
     (if ok status then
        (case body of None \<Rightarrow> Inl SyntaxError | Some data \<Rightarrow> Inr data)
      else Inl (Error (PurchaseFailed status)))"

text \<open>
  The \<^verbatim>\<open>success\<close> member of a response body \<^verbatim>\<open>{ success: boolean, total_amount: number }\<close>
  (of duplicate members \<^verbatim>\<open>JSON.parse\<close> keeps the last).
\<close>

definition success_flag :: "json \<Rightarrow> bool option" where
  "success_flag data =
     (case data of
        JObj members \<Rightarrow>
          (case map_of (rev members) ''success'' of Some (JBool b) \<Rightarrow> Some b | _ \<Rightarrow> None)
      | _ \<Rightarrow> None)"

text \<open>
  Modelled from the spec: the checkout orchestrator, which the page does not have (the
  purchase button has no \<^verbatim>\<open>onClick\<close>, and nothing calls \<^verbatim>\<open>postPurchase\<close>). The specification
  says of it: it submits the purchase request to the purchase client; "On success: returns
  the backend's authoritative PurchaseResult; the caller is responsible for clearing the
  Cart (the orchestrator does not implicitly mutate cart state)"; "On transport/server
  failure: raises a PurchaseError carrying the status code; the cart must remain intact";
  and "success: false with 2xx status is treated as a logical purchase failure distinct
  from a transport error". The purchase client is \<^verbatim>\<open>postPurchase\<close> of the page. The request
  is a parameter: the specification leaves open where its product ids come from.
\<close>

datatype checkout_failure = PurchaseError js_error | LogicalPurchaseFailure json

definition checkout ::
    "pos_state \<Rightarrow> json \<Rightarrow> fetch_outcome \<Rightarrow> (checkout_failure + json) \<times> pos_state" where
  "checkout s request outcome =
     (case postPurchase request outcome of
        Inl e \<Rightarrow> (Inl (PurchaseError e), s)
      | Inr result \<Rightarrow>
          if success_flag result = Some False then (Inl (LogicalPurchaseFailure result), s)
          else (Inr result, s))"

section \<open>Auxiliary facts\<close>

subsection \<open>Integers that binary64 holds exactly\<close>

lemma ulp_small: "m < 2 ^ 53 \<Longrightarrow> ulp m = 1"
  by (simp add: ulp.simps)

lemma round64_exact: "\<bar>n\<bar> \<le> 2 ^ 53 \<Longrightarrow> round64 n = Num n"
proof (cases "\<bar>n\<bar> < 2 ^ 53")
  case True
  then have u: "ulp \<bar>n\<bar> = 1" by (rule ulp_small)
  have "\<not> (2::int) ^ 1024 \<le> \<bar>n\<bar>" using True by simp
  then show ?thesis using u by (auto simp: round64_def Let_def)
next
  case False
  assume "\<bar>n\<bar> \<le> 2 ^ 53"
  with False have "\<bar>n\<bar> = 2 ^ 53" by simp
  then have "n = 2 ^ 53 \<or> n = - (2 ^ 53)" by linarith
  moreover have "round64 (2 ^ 53) = Num (2 ^ 53)" by code_simp
  moreover have "round64 (- (2 ^ 53)) = Num (- (2 ^ 53))" by code_simp
  ultimately show ?thesis by auto
qed

lemma spec_magnitude_nonneg: "0 \<le> spec_magnitude c"
  by (auto simp: spec_magnitude_def intro!: sum_list_nonneg)

lemma foldl_total_exact:
  assumes "int_priced c" and "\<bar>a\<bar> + spec_magnitude c \<le> 2 ^ 53"
  shows "foldl (\<lambda>sum item. js_add sum (js_mul (item_price item) (Num (item_qty item))))
           (Num a) c = Num (a + spec_subtotal c)"
  using assms
proof (induction c arbitrary: a)
  case Nil
  show ?case by (simp add: spec_subtotal_def)
next
  case (Cons l c)
  from Cons.prems(1) obtain p where p: "item_price l = Num p"
    by (auto simp: int_priced_def split: jsnum.splits)
  let ?x = "p * item_qty l"
  from p have ip: "int_price l = p" by (simp add: int_price_def)
  have mag: "spec_magnitude (l # c) = \<bar>?x\<bar> + spec_magnitude c"
    by (simp add: spec_magnitude_def ip)
  have sub: "spec_subtotal (l # c) = ?x + spec_subtotal c"
    by (simp add: spec_subtotal_def ip)
  from Cons.prems(2) mag spec_magnitude_nonneg [of c]
  have bound: "\<bar>a\<bar> + \<bar>?x\<bar> + spec_magnitude c \<le> 2 ^ 53" and x: "\<bar>?x\<bar> \<le> 2 ^ 53"
    and ax: "\<bar>a + ?x\<bar> \<le> 2 ^ 53"
    by linarith+
  from x have "js_mul (item_price l) (Num (item_qty l)) = Num ?x"
    by (simp add: p round64_exact)
  moreover from ax have "js_add (Num a) (Num ?x) = Num (a + ?x)"
    by (simp add: round64_exact)
  moreover have "int_priced c" using Cons.prems(1) by (simp add: int_priced_def)
  moreover have "\<bar>a + ?x\<bar> + spec_magnitude c \<le> 2 ^ 53" using bound by linarith
  ultimately show ?case using Cons.IH [of "a + ?x"] sub by simp
qed

lemma total_exact:
  "int_priced c \<Longrightarrow> spec_magnitude c \<le> 2 ^ 53 \<Longrightarrow> total_of c = Num (spec_subtotal c)"
  using foldl_total_exact [of c 0] by (simp add: total_of_def)

subsection \<open>What \<^const>\<open>find_ref\<close> finds\<close>

lemma find_ref_None: "find_ref p xs = None \<longleftrightarrow> (\<forall>x \<in> set xs. \<not> p x)"
  by (induction xs) auto

lemma find_ref_Some:
  "find_ref p xs = Some i \<longleftrightarrow> i < length xs \<and> p (xs ! i) \<and> (\<forall>j < i. \<not> p (xs ! j))"
proof (induction xs arbitrary: i)
  case Nil
  show ?case by simp
next
  case (Cons x xs)
  show ?case
    by (cases i) (auto simp: Cons.IH nth_Cons split: nat.splits)
qed

lemma find_ref_code_None:
  "find_ref (\<lambda>item. item_code item = k) xs = None \<longleftrightarrow> k \<notin> item_code ` set xs"
  by (auto simp: find_ref_None)

lemma find_ref_code_Some_ex:
  "k \<in> item_code ` set xs \<Longrightarrow> \<exists>i. find_ref (\<lambda>item. item_code item = k) xs = Some i"
  using find_ref_code_None [of k xs] by (cases "find_ref (\<lambda>item. item_code item = k) xs") auto

subsection \<open>The three cases of \<^const>\<open>handleAdd\<close>\<close>

lemma handleAdd_guarded: "name s = [] \<or> price s = [] \<Longrightarrow> handleAdd s = s"
  by (auto simp: handleAdd_def js_not_def)

lemma cart_handleAdd_new:
  assumes "name s \<noteq> []" "price s \<noteq> []" "code s \<notin> item_code ` set (cart s)"
  shows "cart (handleAdd s) = cart s @
           [\<lparr>item_code = code s, item_name = name s,
             item_price = parseInt10 (price s), item_qty = 1\<rparr>]"
proof -
  have "find_ref (\<lambda>item. item_code item = code s) (cart s) = None"
    using assms(3) by (simp add: find_ref_code_None)
  then show ?thesis using assms(1,2) by (simp add: handleAdd_def js_not_def)
qed

lemma cart_handleAdd_merge:
  assumes "name s \<noteq> []" "price s \<noteq> []"
    and "find_ref (\<lambda>item. item_code item = code s) (cart s) = Some i"
  shows "cart (handleAdd s) = (cart s)[i := incr_qty (cart s ! i)]"
  using assms by (simp add: handleAdd_def js_not_def incr_qty_def)

subsection \<open>Lists with one entry replaced\<close>

lemma map_update_same:
  assumes "i < length xs" "f y = f (xs ! i)"
  shows "map f (xs[i := y]) = map f xs"
proof -
  have "map f (xs[i := y]) = (map f xs)[i := f y]" by (rule map_update)
  also have "\<dots> = (map f xs)[i := map f xs ! i]" using assms by simp
  also have "\<dots> = map f xs" by (rule list_update_id)
  finally show ?thesis .
qed

lemma filter_update_outside:
  "\<not> q (xs ! i) \<Longrightarrow> \<not> q y \<Longrightarrow> i < length xs \<Longrightarrow> filter q (xs[i := y]) = filter q xs"
proof (induction xs arbitrary: i)
  case Nil
  then show ?case by simp
next
  case (Cons x xs)
  then show ?case by (cases i) auto
qed

lemma qtys_update_first:
  assumes "find_ref (\<lambda>item. item_code item = k) xs = Some i"
  shows "map item_qty (filter (\<lambda>l. item_code l = k) (xs[i := incr_qty (xs ! i)])) =
         (case map item_qty (filter (\<lambda>l. item_code l = k) xs) of
            [] \<Rightarrow> [] | q # qs \<Rightarrow> (q + 1) # qs)"
  using assms
proof (induction xs arbitrary: i)
  case Nil
  then show ?case by simp
next
  case (Cons x xs)
  show ?case
  proof (cases "item_code x = k")
    case True
    with Cons.prems have "i = 0" by simp
    with True show ?thesis by (simp add: incr_qty_def)
  next
    case False
    with Cons.prems obtain j where j: "find_ref (\<lambda>item. item_code item = k) xs = Some j" "i = Suc j"
      by auto
    from Cons.IH [OF j(1)] False j(2) show ?thesis by simp
  qed
qed

subsection \<open>One add-to-cart call\<close>

lemma addLine_guarded: "\<not> passes_guard a \<Longrightarrow> cart (addLine s a) = cart s"
  by (auto simp: addLine_def passes_guard_def handleAdd_guarded)

lemma addLine_new:
  assumes "passes_guard a" "call_code a \<notin> item_code ` set (cart s)"
  shows "cart (addLine s a) = cart s @
           [\<lparr>item_code = call_code a, item_name = call_name a,
             item_price = parseInt10 (call_price a), item_qty = 1\<rparr>]"
  using assms cart_handleAdd_new [of "s\<lparr>code := call_code a, name := call_name a, price := call_price a\<rparr>"]
  by (simp add: addLine_def passes_guard_def)

lemma addLine_merge:
  assumes "passes_guard a" "call_code a \<in> item_code ` set (cart s)"
  shows "\<exists>i. find_ref (\<lambda>item. item_code item = call_code a) (cart s) = Some i \<and>
             cart (addLine s a) = (cart s)[i := incr_qty (cart s ! i)]"
proof -
  from find_ref_code_Some_ex [OF assms(2)]
  obtain i where i: "find_ref (\<lambda>item. item_code item = call_code a) (cart s) = Some i" ..
  have "cart (addLine s a) = (cart s)[i := incr_qty (cart s ! i)]"
    using assms(1) i
      cart_handleAdd_merge [of "s\<lparr>code := call_code a, name := call_name a, price := call_price a\<rparr>" i]
    by (simp add: addLine_def passes_guard_def)
  with i show ?thesis by blast
qed

lemma codes_addLine:
  "map item_code (cart (addLine s a)) =
     (if passes_guard a \<and> call_code a \<notin> item_code ` set (cart s)
      then map item_code (cart s) @ [call_code a] else map item_code (cart s))"
proof (cases "passes_guard a")
  case False
  then show ?thesis by (simp add: addLine_guarded)
next
  case True
  show ?thesis
  proof (cases "call_code a \<in> item_code ` set (cart s)")
    case False
    with True show ?thesis by (simp add: addLine_new)
  next
    case present: True
    from addLine_merge [OF True present] obtain i
      where i: "find_ref (\<lambda>item. item_code item = call_code a) (cart s) = Some i"
        and c: "cart (addLine s a) = (cart s)[i := incr_qty (cart s ! i)]" by blast
    from i have "i < length (cart s)" by (simp add: find_ref_Some)
    then have "map item_code ((cart s)[i := incr_qty (cart s ! i)]) = map item_code (cart s)"
      by (rule map_update_same) (simp add: incr_qty_def)
    with c present show ?thesis by simp
  qed
qed

lemma qtys_addLine:
  "map item_qty (filter (\<lambda>l. item_code l = k) (cart (addLine s a))) =
     (if passes_guard a \<and> call_code a = k
      then (case map item_qty (filter (\<lambda>l. item_code l = k) (cart s)) of
              [] \<Rightarrow> [1] | q # qs \<Rightarrow> (q + 1) # qs)
      else map item_qty (filter (\<lambda>l. item_code l = k) (cart s)))"
proof (cases "passes_guard a")
  case False
  then show ?thesis by (simp add: addLine_guarded)
next
  case True
  show ?thesis
  proof (cases "call_code a \<in> item_code ` set (cart s)")
    case False
    then have "\<forall>l \<in> set (cart s). item_code l \<noteq> call_code a"
      by (metis imageI)
    then have "filter (\<lambda>l. item_code l = call_code a) (cart s) = []"
      by (simp add: filter_empty_conv)
    with True False show ?thesis by (auto simp: addLine_new)
  next
    case present: True
    from addLine_merge [OF True present] obtain i
      where i: "find_ref (\<lambda>item. item_code item = call_code a) (cart s) = Some i"
        and c: "cart (addLine s a) = (cart s)[i := incr_qty (cart s ! i)]" by blast
    from i have len: "i < length (cart s)" and at: "item_code (cart s ! i) = call_code a"
      by (simp_all add: find_ref_Some)
    show ?thesis
    proof (cases "call_code a = k")
      case same: True
      from present same obtain l where "l \<in> set (cart s)" "item_code l = k" by auto
      then have "filter (\<lambda>l. item_code l = k) (cart s) \<noteq> []"
        by (auto simp: filter_empty_conv)
      then show ?thesis
        using True same c qtys_update_first [OF i]
        by (auto split: list.splits)
    next
      case other: False
      have "filter (\<lambda>l. item_code l = k) ((cart s)[i := incr_qty (cart s ! i)]) =
            filter (\<lambda>l. item_code l = k) (cart s)"
        using other at len by (intro filter_update_outside) (simp_all add: incr_qty_def)
      with other c show ?thesis by simp
    qed
  qed
qed

lemma handleAdd_noop_iff: "handleAdd s = s \<longleftrightarrow> name s = [] \<or> price s = []"
proof
  assume noop: "handleAdd s = s"
  show "name s = [] \<or> price s = []"
  proof (rule ccontr)
    assume "\<not> (name s = [] \<or> price s = [])"
    then have ne: "name s \<noteq> []" "price s \<noteq> []" by simp_all
    show False
    proof (cases "find_ref (\<lambda>item. item_code item = code s) (cart s)")
      case None
      then have "code s \<notin> item_code ` set (cart s)" by (simp add: find_ref_code_None)
      from cart_handleAdd_new [OF ne this] have "length (cart (handleAdd s)) = Suc (length (cart s))"
        by simp
      with noop show False by simp
    next
      case (Some i)
      then have len: "i < length (cart s)" by (simp add: find_ref_Some)
      from cart_handleAdd_merge [OF ne Some] len
      have "item_qty (cart (handleAdd s) ! i) = item_qty (cart s ! i) + 1"
        by (simp add: incr_qty_def)
      with noop show False by simp
    qed
  qed
next
  assume "name s = [] \<or> price s = []"
  then show "handleAdd s = s" by (rule handleAdd_guarded)
qed

subsection \<open>Sequences of calls\<close>

lemma addLines_snoc: "addLines s (calls @ [a]) = addLine (addLines s calls) a"
  by (simp add: addLines_def)

lemma first_occurrences_snoc:
  "first_occurrences (xs @ [x]) =
     (if x \<in> set xs then first_occurrences xs else first_occurrences xs @ [x])"
  by (simp add: first_occurrences_def)

lemma set_first_occurrences: "set (first_occurrences xs) = set xs"
  by (simp add: first_occurrences_def)

lemma distinct_first_occurrences: "distinct (first_occurrences xs)"
  by (simp add: first_occurrences_def)

lemma codes_addLines:
  "map item_code (cart (addLines initial_state calls)) =
   first_occurrences (map call_code (filter passes_guard calls))"
proof (induction calls rule: rev_induct)
  case Nil
  show ?case by (simp add: addLines_def initial_state_def first_occurrences_def)
next
  case (snoc a calls)
  let ?s = "addLines initial_state calls"
  have "item_code ` set (cart ?s) = set (map item_code (cart ?s))" by simp
  also have "\<dots> = set (map call_code (filter passes_guard calls))"
    by (simp only: snoc.IH set_first_occurrences)
  finally have present: "item_code ` set (cart ?s) = set (map call_code (filter passes_guard calls))" .
  show ?case
  proof (cases "passes_guard a")
    case False
    then show ?thesis by (simp add: addLines_snoc codes_addLine snoc.IH)
  next
    case True
    let ?old = "map call_code (filter passes_guard calls)"
    have "map item_code (cart (addLines initial_state (calls @ [a]))) =
          (if call_code a \<notin> item_code ` set (cart ?s)
           then map item_code (cart ?s) @ [call_code a] else map item_code (cart ?s))"
      using True by (simp add: addLines_snoc codes_addLine)
    also have "\<dots> = (if call_code a \<notin> set ?old
           then first_occurrences ?old @ [call_code a] else first_occurrences ?old)"
      by (simp only: present snoc.IH)
    also have "\<dots> = first_occurrences (?old @ [call_code a])"
      by (simp only: first_occurrences_snoc) simp
    also have "?old @ [call_code a] = map call_code (filter passes_guard (calls @ [a]))"
      using True by simp
    finally show ?thesis .
  qed
qed

lemma qtys_addLines:
  "map item_qty (filter (\<lambda>l. item_code l = k) (cart (addLines initial_state calls))) =
     (if filter (\<lambda>a. passes_guard a \<and> call_code a = k) calls = [] then []
      else [int (length (filter (\<lambda>a. passes_guard a \<and> call_code a = k) calls))])"
proof (induction calls rule: rev_induct)
  case Nil
  show ?case by (simp add: addLines_def initial_state_def)
next
  case (snoc a calls)
  show ?case
    by (simp add: addLines_snoc qtys_addLine snoc.IH)
qed

lemma first_occurrences_replicate: "first_occurrences (replicate (Suc n) x) = [x]"
proof (induction n)
  case 0
  show ?case by (simp add: first_occurrences_def)
next
  case (Suc n)
  have "replicate (Suc (Suc n)) x = replicate (Suc n) x @ [x]"
    by (simp add: replicate_append_same)
  then have "first_occurrences (replicate (Suc (Suc n)) x) =
             first_occurrences (replicate (Suc n) x)"
    by (simp only: first_occurrences_snoc) simp
  with Suc.IH show ?case by simp
qed

lemma codes_handleAdd:
  "map item_code (cart (handleAdd s)) =
     (if name s \<noteq> [] \<and> price s \<noteq> [] \<and> code s \<notin> item_code ` set (cart s)
      then map item_code (cart s) @ [code s] else map item_code (cart s))"
proof -
  have "addLine s \<lparr>call_code = code s, call_name = name s, call_price = price s\<rparr> = handleAdd s"
    by (simp add: addLine_def)
  with codes_addLine [of s "\<lparr>call_code = code s, call_name = name s, call_price = price s\<rparr>"]
  show ?thesis by (simp add: passes_guard_def)
qed

subsection \<open>\<^const>\<open>parseInt10\<close> on the literals of the examples\<close>

lemma parseInt10_neg5: "parseInt10 ''-5'' = Num (- 5)"
  by code_simp

lemma parseInt10_abc: "parseInt10 ''abc'' = NaN"
  by code_simp

lemma parseInt10_200: "parseInt10 ''200'' = Num 200"
  by code_simp

lemma parseInt10_5: "parseInt10 ''5'' = Num 5"
  by code_simp

lemma parseInt10_7: "parseInt10 ''7'' = Num 7"
  by code_simp

lemma parseInt10_1: "parseInt10 ''1'' = Num 1"
  by code_simp

lemma parseInt10_2_53: "parseInt10 ''9007199254740992'' = Num 9007199254740992"
  by code_simp

lemmas parseInt10_eval =
  parseInt10_neg5 parseInt10_abc parseInt10_200 parseInt10_5 parseInt10_7 parseInt10_1
  parseInt10_2_53

section \<open>The claims\<close>

text \<open>
  C1 (merge invariant). Start from the empty cart of the first render and make any sequence
  of add-to-cart calls. If the sequence is not empty and every call passes the guard and
  carries the same code \<open>k\<close>, the cart is one single line, its code is \<open>k\<close> and its qty is
  the number of calls. More generally, whatever calls are mixed in (guarded or not, with
  other codes): no two lines of the cart share a code, and the lines with code \<open>k\<close> are
  none when no call with code \<open>k\<close> passed the guard, and otherwise exactly one, whose qty is
  the number of such calls. Finally, in any state, an add whose code is already in the cart
  adds no line: the cart keeps its length and its codes.
\<close>

theorem merge_invariant:
  "(calls \<noteq> [] \<and> (\<forall>a \<in> set calls. passes_guard a \<and> call_code a = k) \<longrightarrow>
      (\<exists>l. cart (addLines initial_state calls) = [l] \<and> item_code l = k \<and>
           item_qty l = int (length calls))) \<and>
   distinct (map item_code (cart (addLines initial_state calls))) \<and>
   map item_qty (filter (\<lambda>l. item_code l = k) (cart (addLines initial_state calls))) =
     (if filter (\<lambda>a. passes_guard a \<and> call_code a = k) calls = [] then []
      else [int (length (filter (\<lambda>a. passes_guard a \<and> call_code a = k) calls))]) \<and>
   (code s \<in> item_code ` set (cart s) \<longrightarrow>
      map item_code (cart (handleAdd s)) = map item_code (cart s) \<and>
      length (cart (handleAdd s)) = length (cart s))"
proof (intro conjI impI)
  let ?c = "cart (addLines initial_state calls)"
  show d: "distinct (map item_code ?c)"
    by (simp only: codes_addLines distinct_first_occurrences)
  show "map item_qty (filter (\<lambda>l. item_code l = k) ?c) =
     (if filter (\<lambda>a. passes_guard a \<and> call_code a = k) calls = [] then []
      else [int (length (filter (\<lambda>a. passes_guard a \<and> call_code a = k) calls))])"
    by (rule qtys_addLines)
next
  let ?c = "cart (addLines initial_state calls)"
  assume a: "calls \<noteq> [] \<and> (\<forall>a \<in> set calls. passes_guard a \<and> call_code a = k)"
  then have all: "filter (\<lambda>a. passes_guard a \<and> call_code a = k) calls = calls"
    by (simp add: filter_id_conv)
  from a have "filter passes_guard calls = calls" by (simp add: filter_id_conv)
  moreover from a have "map call_code calls = replicate (length calls) k"
    by (simp add: map_replicate_const [symmetric] cong: map_cong)
  ultimately have codes: "map item_code ?c = first_occurrences (replicate (length calls) k)"
    by (simp add: codes_addLines)
  from a obtain n where n: "length calls = Suc n" by (cases calls) auto
  have "first_occurrences (replicate (Suc n) k) = [k]"
    by (rule first_occurrences_replicate)
  with codes n have "map item_code ?c = [k]" by simp
  then obtain l where l: "?c = [l]" "item_code l = k" by auto
  from qtys_addLines [of k calls] all a l have "item_qty l = int (length calls)" by simp
  with l show "\<exists>l. ?c = [l] \<and> item_code l = k \<and> item_qty l = int (length calls)" by blast
next
  assume p: "code s \<in> item_code ` set (cart s)"
  have "addLine s \<lparr>call_code = code s, call_name = name s, call_price = price s\<rparr> = handleAdd s"
    by (simp add: addLine_def)
  with codes_addLine [of s "\<lparr>call_code = code s, call_name = name s, call_price = price s\<rparr>"] p
  show m: "map item_code (cart (handleAdd s)) = map item_code (cart s)" by simp
  from arg_cong [OF m, of length] show "length (cart (handleAdd s)) = length (cart s)" by simp
qed

theorem merge_invariant_witness:
  "passes_guard \<lparr>call_code = ''A'', call_name = ''Tea'', call_price = ''150''\<rparr> \<and>
   passes_guard \<lparr>call_code = ''A'', call_name = ''Milk'', call_price = ''200''\<rparr> \<and>
   (\<exists>l. cart (addLines initial_state
          [\<lparr>call_code = ''A'', call_name = ''Tea'', call_price = ''150''\<rparr>,
           \<lparr>call_code = ''A'', call_name = ''Milk'', call_price = ''200''\<rparr>]) = [l] \<and>
        item_code l = ''A'' \<and> item_qty l = 2) \<and>
   ''A'' \<in> item_code ` set [\<lparr>item_code = ''A'', item_name = ''Tea'', item_price = Num 150, item_qty = 1\<rparr>] \<and>
   length (cart (handleAdd \<lparr>code = ''A'', name = ''Milk'', price = ''200'',
       cart = [\<lparr>item_code = ''A'', item_name = ''Tea'', item_price = Num 150, item_qty = 1\<rparr>]\<rparr>)) = 1"
  using merge_invariant [of "[\<lparr>call_code = ''A'', call_name = ''Tea'', call_price = ''150''\<rparr>,
           \<lparr>call_code = ''A'', call_name = ''Milk'', call_price = ''200''\<rparr>]" "''A''"
       "\<lparr>code = ''A'', name = ''Milk'', price = ''200'',
       cart = [\<lparr>item_code = ''A'', item_name = ''Tea'', item_price = Num 150, item_qty = 1\<rparr>]\<rparr>"]
  by (simp add: passes_guard_def)

text \<open>
  C2, as the claim words it, fails: \<^verbatim>\<open>total\<close> adds binary64 numbers from left to right, and
  each addition rounds. Three adds with the prices \<^verbatim>\<open>'9007199254740992'\<close> (that is \<open>2^53\<close>),
  \<^verbatim>\<open>'1'\<close> and \<^verbatim>\<open>'1'\<close> build a cart of three lines with qty 1 whose prices are exactly these
  integers; the sum of price times qty is 9007199254740994, itself a binary64 value, and
  the subtotal the page computes is 9007199254740992.
\<close>

theorem subtotal_rounding_counterexample:
  "cart (addLines initial_state
     [\<lparr>call_code = ''A'', call_name = ''Gold'', call_price = ''9007199254740992''\<rparr>,
      \<lparr>call_code = ''B'', call_name = ''Gum'', call_price = ''1''\<rparr>,
      \<lparr>call_code = ''C'', call_name = ''Pin'', call_price = ''1''\<rparr>]) =
     [\<lparr>item_code = ''A'', item_name = ''Gold'', item_price = Num 9007199254740992, item_qty = 1\<rparr>,
      \<lparr>item_code = ''B'', item_name = ''Gum'', item_price = Num 1, item_qty = 1\<rparr>,
      \<lparr>item_code = ''C'', item_name = ''Pin'', item_price = Num 1, item_qty = 1\<rparr>] \<and>
   spec_subtotal
     [\<lparr>item_code = ''A'', item_name = ''Gold'', item_price = Num 9007199254740992, item_qty = 1\<rparr>,
      \<lparr>item_code = ''B'', item_name = ''Gum'', item_price = Num 1, item_qty = 1\<rparr>,
      \<lparr>item_code = ''C'', item_name = ''Pin'', item_price = Num 1, item_qty = 1\<rparr>] =
     9007199254740994 \<and>
   total_of
     [\<lparr>item_code = ''A'', item_name = ''Gold'', item_price = Num 9007199254740992, item_qty = 1\<rparr>,
      \<lparr>item_code = ''B'', item_name = ''Gum'', item_price = Num 1, item_qty = 1\<rparr>,
      \<lparr>item_code = ''C'', item_name = ''Pin'', item_price = Num 1, item_qty = 1\<rparr>] =
     Num 9007199254740992"
proof (intro conjI)
  show "cart (addLines initial_state
     [\<lparr>call_code = ''A'', call_name = ''Gold'', call_price = ''9007199254740992''\<rparr>,
      \<lparr>call_code = ''B'', call_name = ''Gum'', call_price = ''1''\<rparr>,
      \<lparr>call_code = ''C'', call_name = ''Pin'', call_price = ''1''\<rparr>]) =
     [\<lparr>item_code = ''A'', item_name = ''Gold'', item_price = Num 9007199254740992, item_qty = 1\<rparr>,
      \<lparr>item_code = ''B'', item_name = ''Gum'', item_price = Num 1, item_qty = 1\<rparr>,
      \<lparr>item_code = ''C'', item_name = ''Pin'', item_price = Num 1, item_qty = 1\<rparr>]"
    by (simp add: addLines_def addLine_def handleAdd_def js_not_def initial_state_def
        parseInt10_eval)
  show "spec_subtotal
     [\<lparr>item_code = ''A'', item_name = ''Gold'', item_price = Num 9007199254740992, item_qty = 1\<rparr>,
      \<lparr>item_code = ''B'', item_name = ''Gum'', item_price = Num 1, item_qty = 1\<rparr>,
      \<lparr>item_code = ''C'', item_name = ''Pin'', item_price = Num 1, item_qty = 1\<rparr>] =
     9007199254740994"
    by (simp add: spec_subtotal_def int_price_def)
  have r0: "round64 9007199254740992 = Num 9007199254740992" by code_simp
  have r1: "round64 1 = Num 1" by code_simp
  have r2: "round64 9007199254740993 = Num 9007199254740992" by code_simp
  show "total_of
     [\<lparr>item_code = ''A'', item_name = ''Gold'', item_price = Num 9007199254740992, item_qty = 1\<rparr>,
      \<lparr>item_code = ''B'', item_name = ''Gum'', item_price = Num 1, item_qty = 1\<rparr>,
      \<lparr>item_code = ''C'', item_name = ''Pin'', item_price = Num 1, item_qty = 1\<rparr>] =
     Num 9007199254740992"
    by (simp add: total_of_def r0 r1 r2)
qed

text \<open>
  C2 (subtotal), amended. For every cart whose prices are integers and whose line amounts
  add up, in absolute value, to at most \<open>2^53\<close>, the subtotal the page displays
  (\<^const>\<open>total_of\<close>, the \<^verbatim>\<open>reduce\<close> from 0) is the exact sum over all lines of price times
  qty. \<^const>\<open>total_of\<close> is a function of the current lines alone and the state stores no
  subtotal, so the same holds for the cart that an add-to-cart call leaves behind.
\<close>

theorem subtotal_exact_in_safe_range:
  "(int_priced c \<and> spec_magnitude c \<le> 2 ^ 53 \<longrightarrow> total_of c = Num (spec_subtotal c)) \<and>
   (int_priced (cart (handleAdd s)) \<and> spec_magnitude (cart (handleAdd s)) \<le> 2 ^ 53 \<longrightarrow>
      total_of (cart (handleAdd s)) = Num (spec_subtotal (cart (handleAdd s))))"
  by (simp add: total_exact)

theorem subtotal_exact_in_safe_range_witness:
  "int_priced
     [\<lparr>item_code = ''A'', item_name = ''Tea'', item_price = Num 150, item_qty = 2\<rparr>,
      \<lparr>item_code = ''B'', item_name = ''Milk'', item_price = Num 200, item_qty = 1\<rparr>] \<and>
   spec_magnitude
     [\<lparr>item_code = ''A'', item_name = ''Tea'', item_price = Num 150, item_qty = 2\<rparr>,
      \<lparr>item_code = ''B'', item_name = ''Milk'', item_price = Num 200, item_qty = 1\<rparr>] \<le> 2 ^ 53 \<and>
   total_of
     [\<lparr>item_code = ''A'', item_name = ''Tea'', item_price = Num 150, item_qty = 2\<rparr>,
      \<lparr>item_code = ''B'', item_name = ''Milk'', item_price = Num 200, item_qty = 1\<rparr>] = Num 500 \<and>
   cart (handleAdd \<lparr>code = ''B'', name = ''Milk'', price = ''200'',
      cart = [\<lparr>item_code = ''A'', item_name = ''Tea'', item_price = Num 150, item_qty = 2\<rparr>]\<rparr>) =
     [\<lparr>item_code = ''A'', item_name = ''Tea'', item_price = Num 150, item_qty = 2\<rparr>,
      \<lparr>item_code = ''B'', item_name = ''Milk'', item_price = Num 200, item_qty = 1\<rparr>] \<and>
   total_of (cart (handleAdd \<lparr>code = ''B'', name = ''Milk'', price = ''200'',
      cart = [\<lparr>item_code = ''A'', item_name = ''Tea'', item_price = Num 150, item_qty = 2\<rparr>]\<rparr>)) =
     Num 500"
  using subtotal_exact_in_safe_range [of
      "[\<lparr>item_code = ''A'', item_name = ''Tea'', item_price = Num 150, item_qty = 2\<rparr>,
        \<lparr>item_code = ''B'', item_name = ''Milk'', item_price = Num 200, item_qty = 1\<rparr>]"
      "\<lparr>code = ''B'', name = ''Milk'', price = ''200'',
        cart = [\<lparr>item_code = ''A'', item_name = ''Tea'', item_price = Num 150, item_qty = 2\<rparr>]\<rparr>"]
  by (simp add: int_priced_def spec_magnitude_def spec_subtotal_def int_price_def
      handleAdd_def js_not_def parseInt10_eval)

text \<open>
  C3, as the claim words it, fails: the guard of \<^verbatim>\<open>handleAdd\<close> is \<^verbatim>\<open>!name || !price\<close> on two
  strings, which asks whether one of them is empty and nothing more. A price \<^verbatim>\<open>'-5'\<close> and a
  price \<^verbatim>\<open>'abc'\<close> are not empty: the first adds a line with the negative price \<open>-5\<close>, the
  second a line whose price is \<^verbatim>\<open>NaN\<close>, and the subtotal of the empty cart, 0, becomes
  \<open>-5\<close> and \<^verbatim>\<open>NaN\<close>.
\<close>

theorem guard_counterexample:
  "parseInt10 ''-5'' = Num (- 5) \<and>
   cart (handleAdd \<lparr>code = ''A'', name = ''Tea'', price = ''-5'', cart = []\<rparr>) =
     [\<lparr>item_code = ''A'', item_name = ''Tea'', item_price = Num (- 5), item_qty = 1\<rparr>] \<and>
   total_of [] = Num 0 \<and>
   total_of (cart (handleAdd \<lparr>code = ''A'', name = ''Tea'', price = ''-5'', cart = []\<rparr>)) =
     Num (- 5) \<and>
   parseInt10 ''abc'' = NaN \<and>
   cart (handleAdd \<lparr>code = ''A'', name = ''Tea'', price = ''abc'', cart = []\<rparr>) =
     [\<lparr>item_code = ''A'', item_name = ''Tea'', item_price = NaN, item_qty = 1\<rparr>] \<and>
   total_of (cart (handleAdd \<lparr>code = ''A'', name = ''Tea'', price = ''abc'', cart = []\<rparr>)) = NaN"
proof -
  have "round64 (- 5) = Num (- 5)" by code_simp
  then show ?thesis
    by (simp add: handleAdd_def js_not_def parseInt10_eval total_of_def)
qed

text \<open>
  C3 (guard no-op), amended. For every state, an add-to-cart call whose staged name is empty
  or whose staged price is empty is a no-op: it returns the state it was given, so the
  lines, their number and the subtotal are unchanged (and so are the three inputs).
  \<^const>\<open>handleAdd\<close> has no failing branch, so nothing is raised.
\<close>

theorem guard_noop:
  "name s = [] \<or> price s = [] \<Longrightarrow>
     handleAdd s = s \<and> cart (handleAdd s) = cart s \<and>
     length (cart (handleAdd s)) = length (cart s) \<and>
     total_of (cart (handleAdd s)) = total_of (cart s)"
  by (simp add: handleAdd_guarded)

theorem guard_noop_witness:
  "(name \<lparr>code = ''A'', name = [], price = ''150'',
       cart = [\<lparr>item_code = ''A'', item_name = ''Tea'', item_price = Num 150, item_qty = 1\<rparr>]\<rparr> = [] \<or>
    price \<lparr>code = ''A'', name = [], price = ''150'',
       cart = [\<lparr>item_code = ''A'', item_name = ''Tea'', item_price = Num 150, item_qty = 1\<rparr>]\<rparr> = []) \<and>
   cart (handleAdd \<lparr>code = ''A'', name = [], price = ''150'',
       cart = [\<lparr>item_code = ''A'', item_name = ''Tea'', item_price = Num 150, item_qty = 1\<rparr>]\<rparr>) =
     [\<lparr>item_code = ''A'', item_name = ''Tea'', item_price = Num 150, item_qty = 1\<rparr>]"
  using guard_noop [of "\<lparr>code = ''A'', name = [], price = ''150'',
       cart = [\<lparr>item_code = ''A'', item_name = ''Tea'', item_price = Num 150, item_qty = 1\<rparr>]\<rparr>"]
  by simp

text \<open>
  C4, as the claim words it ("with any name and price"), fails at an empty name: the call
  is stopped by the guard and the qty of the line with that code stays 1.
\<close>

theorem first_write_wins_counterexample:
  "cart (addLine
      \<lparr>code = [], name = [], price = [],
        cart = [\<lparr>item_code = ''A'', item_name = ''Tea'', item_price = Num 150, item_qty = 1\<rparr>]\<rparr>
      \<lparr>call_code = ''A'', call_name = [], call_price = ''200''\<rparr>) =
   [\<lparr>item_code = ''A'', item_name = ''Tea'', item_price = Num 150, item_qty = 1\<rparr>]"
  by (simp add: addLine_def handleAdd_def js_not_def)

text \<open>
  C4 (first write wins), amended. Let the cart hold a line with the code of the call, and
  let \<open>i\<close> be the place of the first such line (the only one in a cart that adds have
  built from the empty cart). Whatever name and price the call carries, the line keeps its
  code, its name and its price; and when the call passes the guard (name and price not
  empty, possibly different from the line's), the qty of that line goes up by 1 and every
  other line is as it was.
\<close>

theorem first_write_wins:
  assumes "i < length (cart s)"
    and "item_code (cart s ! i) = call_code a"
    and "\<forall>j<i. item_code (cart s ! j) \<noteq> call_code a"
  shows "(passes_guard a \<longrightarrow>
            cart (addLine s a) = (cart s)[i := incr_qty (cart s ! i)] \<and>
            item_qty (cart (addLine s a) ! i) = item_qty (cart s ! i) + 1) \<and>
         item_code (cart (addLine s a) ! i) = item_code (cart s ! i) \<and>
         item_name (cart (addLine s a) ! i) = item_name (cart s ! i) \<and>
         item_price (cart (addLine s a) ! i) = item_price (cart s ! i)"
proof (cases "passes_guard a")
  case False
  then show ?thesis by (simp add: addLine_guarded)
next
  case True
  from assms have i: "find_ref (\<lambda>item. item_code item = call_code a) (cart s) = Some i"
    by (simp add: find_ref_Some)
  from assms(1,2) have "call_code a \<in> item_code ` set (cart s)"
    by (metis imageI nth_mem)
  from addLine_merge [OF True this] i
  have c: "cart (addLine s a) = (cart s)[i := incr_qty (cart s ! i)]" by simp
  with assms(1) True show ?thesis by (simp add: incr_qty_def)
qed

theorem first_write_wins_witness:
  "(1::nat) < length [\<lparr>item_code = ''B'', item_name = ''Milk'', item_price = Num 200, item_qty = 1\<rparr>,
                     \<lparr>item_code = ''A'', item_name = ''Tea'', item_price = Num 150, item_qty = 1\<rparr>] \<and>
   passes_guard \<lparr>call_code = ''A'', call_name = ''Chai'', call_price = ''999''\<rparr> \<and>
   cart (addLine
      \<lparr>code = [], name = [], price = [],
        cart = [\<lparr>item_code = ''B'', item_name = ''Milk'', item_price = Num 200, item_qty = 1\<rparr>,
                \<lparr>item_code = ''A'', item_name = ''Tea'', item_price = Num 150, item_qty = 1\<rparr>]\<rparr>
      \<lparr>call_code = ''A'', call_name = ''Chai'', call_price = ''999''\<rparr>) =
   [\<lparr>item_code = ''B'', item_name = ''Milk'', item_price = Num 200, item_qty = 1\<rparr>,
    \<lparr>item_code = ''A'', item_name = ''Tea'', item_price = Num 150, item_qty = 2\<rparr>]"
  using first_write_wins [of 1
      "\<lparr>code = [], name = [], price = [],
        cart = [\<lparr>item_code = ''B'', item_name = ''Milk'', item_price = Num 200, item_qty = 1\<rparr>,
                \<lparr>item_code = ''A'', item_name = ''Tea'', item_price = Num 150, item_qty = 1\<rparr>]\<rparr>"
      "\<lparr>call_code = ''A'', call_name = ''Chai'', call_price = ''999''\<rparr>"]
  by (simp add: passes_guard_def incr_qty_def)

text \<open>
  C5 (order preservation). From the empty cart, the codes of the lines, read in cart
  order, are the codes of the calls that passed the guard in the order of their first
  appearance. In any state, a call that passes the guard with a code not yet in the cart
  appends one line with qty 1 at the end, and a call that passes the guard with a code
  already there leaves the code, the name and the price at every position as they were.
\<close>

theorem order_preservation:
  "map item_code (cart (addLines initial_state calls)) =
     first_occurrences (map call_code (filter passes_guard calls)) \<and>
   (passes_guard a \<and> call_code a \<notin> item_code ` set (cart s) \<longrightarrow>
      cart (addLine s a) = cart s @
        [\<lparr>item_code = call_code a, item_name = call_name a,
          item_price = parseInt10 (call_price a), item_qty = 1\<rparr>]) \<and>
   (passes_guard a \<and> call_code a \<in> item_code ` set (cart s) \<longrightarrow>
      map item_code (cart (addLine s a)) = map item_code (cart s) \<and>
      map item_name (cart (addLine s a)) = map item_name (cart s) \<and>
      map item_price (cart (addLine s a)) = map item_price (cart s))"
proof (intro conjI impI)
  show "map item_code (cart (addLines initial_state calls)) =
     first_occurrences (map call_code (filter passes_guard calls))"
    by (rule codes_addLines)
next
  assume "passes_guard a \<and> call_code a \<notin> item_code ` set (cart s)"
  then show "cart (addLine s a) = cart s @
        [\<lparr>item_code = call_code a, item_name = call_name a,
          item_price = parseInt10 (call_price a), item_qty = 1\<rparr>]"
    by (simp add: addLine_new)
next
  assume h: "passes_guard a \<and> call_code a \<in> item_code ` set (cart s)"
  then obtain i
    where i: "find_ref (\<lambda>item. item_code item = call_code a) (cart s) = Some i"
      and c: "cart (addLine s a) = (cart s)[i := incr_qty (cart s ! i)]"
    using addLine_merge [of a s] by blast
  from i have len: "i < length (cart s)" by (simp add: find_ref_Some)
  show "map item_code (cart (addLine s a)) = map item_code (cart s)"
    unfolding c using len by (rule map_update_same) (simp add: incr_qty_def)
  show "map item_name (cart (addLine s a)) = map item_name (cart s)"
    unfolding c using len by (rule map_update_same) (simp add: incr_qty_def)
  show "map item_price (cart (addLine s a)) = map item_price (cart s)"
    unfolding c using len by (rule map_update_same) (simp add: incr_qty_def)
qed

theorem order_preservation_witness:
  "passes_guard \<lparr>call_code = ''B'', call_name = ''Milk'', call_price = ''200''\<rparr> \<and>
   ''B'' \<notin> item_code ` set [\<lparr>item_code = ''A'', item_name = ''Tea'', item_price = Num 150, item_qty = 2\<rparr>] \<and>
   cart (addLine \<lparr>code = [], name = [], price = [],
           cart = [\<lparr>item_code = ''A'', item_name = ''Tea'', item_price = Num 150, item_qty = 2\<rparr>]\<rparr>
         \<lparr>call_code = ''B'', call_name = ''Milk'', call_price = ''200''\<rparr>) =
     [\<lparr>item_code = ''A'', item_name = ''Tea'', item_price = Num 150, item_qty = 2\<rparr>,
      \<lparr>item_code = ''B'', item_name = ''Milk'', item_price = Num 200, item_qty = 1\<rparr>] \<and>
   passes_guard \<lparr>call_code = ''A'', call_name = ''Milk'', call_price = ''200''\<rparr> \<and>
   ''A'' \<in> item_code ` set [\<lparr>item_code = ''A'', item_name = ''Tea'', item_price = Num 150, item_qty = 2\<rparr>] \<and>
   map item_code (cart (addLine \<lparr>code = [], name = [], price = [],
           cart = [\<lparr>item_code = ''A'', item_name = ''Tea'', item_price = Num 150, item_qty = 2\<rparr>]\<rparr>
         \<lparr>call_code = ''A'', call_name = ''Milk'', call_price = ''200''\<rparr>)) = [''A'']"
  using
    order_preservation [of "[]" "\<lparr>call_code = ''B'', call_name = ''Milk'', call_price = ''200''\<rparr>"
      "\<lparr>code = [], name = [], price = [],
           cart = [\<lparr>item_code = ''A'', item_name = ''Tea'', item_price = Num 150, item_qty = 2\<rparr>]\<rparr>"]
    order_preservation [of "[]" "\<lparr>call_code = ''A'', call_name = ''Milk'', call_price = ''200''\<rparr>"
      "\<lparr>code = [], name = [], price = [],
           cart = [\<lparr>item_code = ''A'', item_name = ''Tea'', item_price = Num 150, item_qty = 2\<rparr>]\<rparr>"]
  by (simp add: passes_guard_def parseInt10_eval)

text \<open>
  C6 (checkout failure preserves the cart), on the \<^const>\<open>checkout\<close> modelled from the
  specification around \<^verbatim>\<open>postPurchase\<close> of the page. Whenever a checkout made in state \<open>s\<close>
  fails, the state after it is \<open>s\<close>: the cart has the same lines, with the same contents, in
  the same order. It fails with a \<open>PurchaseError\<close> that carries the status when the status
  is not a success status and with a \<open>PurchaseError\<close> when there is no response, and it fails
  with a \<open>LogicalPurchaseFailure\<close> when a success status comes with a body whose
  \<^verbatim>\<open>success\<close> is false.
\<close>

theorem checkout_failure_preserves_cart:
  "(fst (checkout s request outcome) = Inl failure \<longrightarrow>
      snd (checkout s request outcome) = s \<and>
      cart (snd (checkout s request outcome)) = cart s) \<and>
   (\<not> ok status \<longrightarrow>
      checkout s request (Response status body) =
        (Inl (PurchaseError (Error (PurchaseFailed status))), s)) \<and>
   checkout s request Rejected = (Inl (PurchaseError TypeError), s) \<and>
   (ok status \<and> success_flag data = Some False \<longrightarrow>
      checkout s request (Response status (Some data)) =
        (Inl (LogicalPurchaseFailure data), s))"
  by (simp add: checkout_def split: sum.splits)

theorem checkout_failure_preserves_cart_witness:
  "\<not> ok 500 \<and>
   fst (checkout
     \<lparr>code = [], name = [], price = [],
       cart = [\<lparr>item_code = ''A'', item_name = ''Tea'', item_price = Num 150, item_qty = 2\<rparr>,
               \<lparr>item_code = ''B'', item_name = ''Milk'', item_price = Num 200, item_qty = 1\<rparr>]\<rparr>
     (JObj []) (Response 500 None)) =
     Inl (PurchaseError (Error (PurchaseFailed 500))) \<and>
   cart (snd (checkout
     \<lparr>code = [], name = [], price = [],
       cart = [\<lparr>item_code = ''A'', item_name = ''Tea'', item_price = Num 150, item_qty = 2\<rparr>,
               \<lparr>item_code = ''B'', item_name = ''Milk'', item_price = Num 200, item_qty = 1\<rparr>]\<rparr>
     (JObj []) (Response 500 None))) =
   [\<lparr>item_code = ''A'', item_name = ''Tea'', item_price = Num 150, item_qty = 2\<rparr>,
    \<lparr>item_code = ''B'', item_name = ''Milk'', item_price = Num 200, item_qty = 1\<rparr>] \<and>
   ok 200 \<and>
   success_flag (JObj [(''success'', JBool False)]) = Some False \<and>
   checkout
     \<lparr>code = [], name = [], price = [],
       cart = [\<lparr>item_code = ''A'', item_name = ''Tea'', item_price = Num 150, item_qty = 2\<rparr>,
               \<lparr>item_code = ''B'', item_name = ''Milk'', item_price = Num 200, item_qty = 1\<rparr>]\<rparr>
     (JObj []) (Response 200 (Some (JObj [(''success'', JBool False)]))) =
   (Inl (LogicalPurchaseFailure (JObj [(''success'', JBool False)])),
    \<lparr>code = [], name = [], price = [],
       cart = [\<lparr>item_code = ''A'', item_name = ''Tea'', item_price = Num 150, item_qty = 2\<rparr>,
               \<lparr>item_code = ''B'', item_name = ''Milk'', item_price = Num 200, item_qty = 1\<rparr>]\<rparr>)"
  using
    checkout_failure_preserves_cart [of
      "\<lparr>code = [], name = [], price = [],
       cart = [\<lparr>item_code = ''A'', item_name = ''Tea'', item_price = Num 150, item_qty = 2\<rparr>,
               \<lparr>item_code = ''B'', item_name = ''Milk'', item_price = Num 200, item_qty = 1\<rparr>]\<rparr>"
      "JObj []" "Response 500 None" "PurchaseError (Error (PurchaseFailed 500))"
      500 None "JObj [(''success'', JBool False)]"]
    checkout_failure_preserves_cart [of
      "\<lparr>code = [], name = [], price = [],
       cart = [\<lparr>item_code = ''A'', item_name = ''Tea'', item_price = Num 150, item_qty = 2\<rparr>,
               \<lparr>item_code = ''B'', item_name = ''Milk'', item_price = Num 200, item_qty = 1\<rparr>]\<rparr>"
      "JObj []" "Response 500 None" "PurchaseError (Error (PurchaseFailed 500))"
      200 None "JObj [(''success'', JBool False)]"]
  by (simp add: ok_def success_flag_def)

text \<open>
  C7 (lookup error taxonomy). A response whose status is not a success status makes
  \<^verbatim>\<open>fetchProductByCode\<close> raise the error whose message holds that status, whatever the body.
  A response with a success status and the body \<^verbatim>\<open>null\<close> is returned as the value \<^verbatim>\<open>null\<close>.
  And \<^verbatim>\<open>null\<close> is returned in that case only: no failed request is reported as "no such
  product".
\<close>

theorem lookup_error_taxonomy:
  "(\<not> ok status \<longrightarrow>
      fetchProductByCode c (Response status body) = Inl (Error (LookupFailed status))) \<and>
   (ok status \<longrightarrow> fetchProductByCode c (Response status (Some JNull)) = Inr JNull) \<and>
   (fetchProductByCode c outcome = Inr JNull \<longrightarrow>
      (\<exists>st. ok st \<and> outcome = Response st (Some JNull)))"
proof (intro conjI impI)
  assume "fetchProductByCode c outcome = Inr JNull"
  then show "\<exists>st. ok st \<and> outcome = Response st (Some JNull)"
    by (cases outcome) (auto split: if_splits option.splits)
qed simp_all

theorem lookup_error_taxonomy_witness:
  "\<not> ok 404 \<and>
   fetchProductByCode ''4901234567894'' (Response 404 (Some JNull)) = Inl (Error (LookupFailed 404)) \<and>
   ok 200 \<and>
   fetchProductByCode ''4901234567894'' (Response 200 (Some JNull)) = Inr JNull"
  using lookup_error_taxonomy [of 404 "''4901234567894''" "Some JNull" "Response 200 (Some JNull)"]
    lookup_error_taxonomy [of 200 "''4901234567894''" "Some JNull" "Response 200 (Some JNull)"]
  by (simp add: ok_def)

text \<open>
  C8 (logical purchase failure). A response with a success status whose body says
  \<^verbatim>\<open>success: false\<close> reaches the caller of \<^verbatim>\<open>postPurchase\<close> as that very body, returned and
  not raised, with the flag to read in it. A transport failure reaches the caller as a
  raised error (with the status, or a \<^verbatim>\<open>TypeError\<close> without a response). So the two are
  told apart: a returned body always comes from a response with a success status.
\<close>

theorem logical_failure_distinguished:
  "(ok status \<and> success_flag data = Some False \<longrightarrow>
      postPurchase payload (Response status (Some data)) = Inr data) \<and>
   (\<not> ok status \<longrightarrow>
      postPurchase payload (Response status body) = Inl (Error (PurchaseFailed status))) \<and>
   postPurchase payload Rejected = Inl TypeError \<and>
   (postPurchase payload outcome = Inr data \<longrightarrow>
      (\<exists>st. ok st \<and> outcome = Response st (Some data)))"
proof (intro conjI impI)
  assume "postPurchase payload outcome = Inr data"
  then show "\<exists>st. ok st \<and> outcome = Response st (Some data)"
    by (cases outcome) (auto split: if_splits option.splits)
qed simp_all

theorem logical_failure_distinguished_witness:
  "ok 200 \<and>
   success_flag (JObj [(''success'', JBool False), (''total_amount'', JNum 0)]) = Some False \<and>
   postPurchase (JObj []) (Response 200 (Some (JObj [(''success'', JBool False), (''total_amount'', JNum 0)]))) =
     Inr (JObj [(''success'', JBool False), (''total_amount'', JNum 0)]) \<and>
   \<not> ok 503 \<and>
   postPurchase (JObj []) (Response 503 None) = Inl (Error (PurchaseFailed 503))"
  using
    logical_failure_distinguished [of 200 "JObj [(''success'', JBool False), (''total_amount'', JNum 0)]"
      "JObj []" None
      "Response 200 (Some (JObj [(''success'', JBool False), (''total_amount'', JNum 0)]))"]
    logical_failure_distinguished [of 503 "JObj [(''success'', JBool False), (''total_amount'', JNum 0)]"
      "JObj []" None Rejected]
  by (simp add: ok_def success_flag_def)

text \<open>
  C9 (clear resets fully), on the \<^const>\<open>clear\<close> modelled from the specification: after it
  the list of lines is empty, and the subtotal the page computes for that cart is 0.
\<close>

theorem clear_resets:
  "cart (clear s) = [] \<and> total_of (cart (clear s)) = Num 0"
  by (simp add: clear_def total_of_def)

text \<open>
  C10 (empty code is accepted). Whether \<^const>\<open>handleAdd\<close> is a no-op depends on the staged
  name and price alone: it is one exactly when one of the two is empty, whatever the code.
  So an add with the empty code and a non-empty name and price goes through: the cart then
  holds a line with the empty code, appended with qty 1 when there was none, and otherwise
  the first line with the empty code has its qty raised by 1, as for any other code.
\<close>

theorem empty_code_accepted:
  "(handleAdd s = s \<longleftrightarrow> name s = [] \<or> price s = []) \<and>
   (code s = [] \<and> name s \<noteq> [] \<and> price s \<noteq> [] \<longrightarrow>
      [] \<in> item_code ` set (cart (handleAdd s)) \<and>
      ([] \<notin> item_code ` set (cart s) \<longrightarrow>
         cart (handleAdd s) = cart s @
           [\<lparr>item_code = [], item_name = name s,
             item_price = parseInt10 (price s), item_qty = 1\<rparr>]) \<and>
      ([] \<in> item_code ` set (cart s) \<longrightarrow>
         (\<exists>i<length (cart s). item_code (cart s ! i) = [] \<and> (\<forall>j<i. item_code (cart s ! j) \<noteq> []) \<and>
            cart (handleAdd s) = (cart s)[i := incr_qty (cart s ! i)])))"
proof (intro conjI impI)
  show "handleAdd s = s \<longleftrightarrow> name s = [] \<or> price s = []" by (rule handleAdd_noop_iff)
next
  assume h: "code s = [] \<and> name s \<noteq> [] \<and> price s \<noteq> []"
  assume "[] \<notin> item_code ` set (cart s)"
  with h cart_handleAdd_new [of s]
  show "cart (handleAdd s) = cart s @
           [\<lparr>item_code = [], item_name = name s,
             item_price = parseInt10 (price s), item_qty = 1\<rparr>]" by simp
next
  assume h: "code s = [] \<and> name s \<noteq> [] \<and> price s \<noteq> []"
  assume "[] \<in> item_code ` set (cart s)"
  with h find_ref_code_Some_ex [of "[]" "cart s"] obtain i
    where i: "find_ref (\<lambda>item. item_code item = code s) (cart s) = Some i" by auto
  with h cart_handleAdd_merge [of s i]
  have "cart (handleAdd s) = (cart s)[i := incr_qty (cart s ! i)]" by simp
  with i h show "\<exists>i<length (cart s). item_code (cart s ! i) = [] \<and>
      (\<forall>j<i. item_code (cart s ! j) \<noteq> []) \<and>
      cart (handleAdd s) = (cart s)[i := incr_qty (cart s ! i)]"
    by (auto simp: find_ref_Some)
next
  assume h: "code s = [] \<and> name s \<noteq> [] \<and> price s \<noteq> []"
  have "map item_code (cart (handleAdd s)) =
        (if [] \<notin> item_code ` set (cart s) then map item_code (cart s) @ [[]]
         else map item_code (cart s))"
    using h by (simp add: codes_handleAdd)
  then have "[] \<in> set (map item_code (cart (handleAdd s)))"
    by (simp split: if_splits)
  then show "[] \<in> item_code ` set (cart (handleAdd s))" by simp
qed

theorem empty_code_accepted_witness:
  "code \<lparr>code = [], name = ''Bag'', price = ''5'', cart = []\<rparr> = [] \<and>
   name \<lparr>code = [], name = ''Bag'', price = ''5'', cart = []\<rparr> \<noteq> [] \<and>
   price \<lparr>code = [], name = ''Bag'', price = ''5'', cart = []\<rparr> \<noteq> [] \<and>
   [] \<notin> item_code ` set (cart \<lparr>code = [], name = ''Bag'', price = ''5'', cart = []\<rparr>) \<and>
   cart (handleAdd \<lparr>code = [], name = ''Bag'', price = ''5'', cart = []\<rparr>) =
     [\<lparr>item_code = [], item_name = ''Bag'', item_price = Num 5, item_qty = 1\<rparr>] \<and>
   [] \<in> item_code ` set [\<lparr>item_code = [], item_name = ''Bag'', item_price = Num 5, item_qty = 1\<rparr>] \<and>
   cart (handleAdd \<lparr>code = [], name = ''Box'', price = ''7'',
      cart = [\<lparr>item_code = [], item_name = ''Bag'', item_price = Num 5, item_qty = 1\<rparr>]\<rparr>) =
     [\<lparr>item_code = [], item_name = ''Bag'', item_price = Num 5, item_qty = 2\<rparr>]"
  using empty_code_accepted [of "\<lparr>code = [], name = ''Bag'', price = ''5'', cart = []\<rparr>"]
    empty_code_accepted [of "\<lparr>code = [], name = ''Box'', price = ''7'',
      cart = [\<lparr>item_code = [], item_name = ''Bag'', item_price = Num 5, item_qty = 1\<rparr>]\<rparr>"]
  by (auto simp: parseInt10_eval incr_qty_def less_Suc_eq_0_disj)

end
